theory Spec2Isabelle
  imports Complex_Main "HOL-Library.AList" "HOL-Library.Product_Lexorder"
begin

section \<open>MainRecommender (src/recommenders.py): data model\<close>

text \<open>
  The class \<^verbatim>\<open>MainRecommender\<close> is glue around the \<^verbatim>\<open>implicit\<close> and \<^verbatim>\<open>pandas\<close>
  libraries. Its own logic is embedded here function by function; the library is a
  parameter: a \<open>model\<close> is a record of the four methods the class calls, each of which
  may raise, and a \<open>library\<close> is a record of the constructors and of \<^verbatim>\<open>bm25_weight\<close>.

  External user and item ids and internal matrix indices are Python/numpy integers,
  modelled as \<open>int\<close>: indices are produced by \<^verbatim>\<open>np.arange\<close> and by \<^verbatim>\<open>max_id += 1\<close> only, so
  they stay below the number of users ever seen and the 64-bit bound plays no role.
  Scores are opaque numbers handed through from the library, modelled as \<open>real\<close>.
\<close>

datatype error = AssertionError | KeyError | ValueError | AttributeError | LibraryError

text \<open>Sequencing of computations that may raise: the first error propagates.\<close>

definition bindE :: "error + 'a \<Rightarrow> ('a \<Rightarrow> error + 'b) \<Rightarrow> error + 'b" where
  "bindE r f = (case r of Inl e \<Rightarrow> Inl e | Inr v \<Rightarrow> f v)"

fun mapE :: "('a \<Rightarrow> error + 'b) \<Rightarrow> 'a list \<Rightarrow> error + 'b list" where
  "mapE f [] = Inr []"
| "mapE f (x # xs) =
     (case f x of
        Inl e \<Rightarrow> Inl e
      | Inr y \<Rightarrow> (case mapE f xs of Inl e \<Rightarrow> Inl e | Inr ys \<Rightarrow> Inr (y # ys)))"

subsection \<open>Python values used by the class\<close>

text \<open>
  A Python \<^verbatim>\<open>dict\<close> is an association list with distinct keys in insertion order:
  \<open>AList.update\<close> overwrites the value of a present key in place and appends a new key,
  as \<^verbatim>\<open>dict.update\<close> and \<^verbatim>\<open>dict(zip(...))\<close> do. \<^verbatim>\<open>d[k]\<close> raises KeyError on a missing key.
\<close>

type_synonym ('k, 'v) dict = "('k \<times> 'v) list"

definition dict_get :: "('k, 'v) dict \<Rightarrow> 'k \<Rightarrow> error + 'v" where
  "dict_get d k = (case map_of d k of None \<Rightarrow> Inl KeyError | Some v \<Rightarrow> Inr v)"

definition dict_zip :: "'k list \<Rightarrow> 'v list \<Rightarrow> ('k, 'v) dict" where
  "dict_zip ks vs = fold (\<lambda>kv d. AList.update (fst kv) (snd kv) d) (zip ks vs) []"

text \<open>\<^verbatim>\<open>xs[:n]\<close> (and \<^verbatim>\<open>DataFrame.head(n)\<close>): a negative \<open>n\<close> drops the last \<open>-n\<close> elements.\<close>

definition py_take :: "int \<Rightarrow> 'a list \<Rightarrow> 'a list" where
  "py_take n xs = (if 0 \<le> n then take (nat n) xs else take (length xs - nat (- n)) xs)"

text \<open>\<^verbatim>\<open>max(list)\<close> raises ValueError on an empty list.\<close>

definition py_max :: "int list \<Rightarrow> error + int" where
  "py_max xs = (case xs of [] \<Rightarrow> Inl ValueError | y # ys \<Rightarrow> Inr (fold max ys y))"

text \<open>\<^verbatim>\<open>str(i)\<close> of an integer: its decimal digits, with a minus sign when negative.\<close>

fun str_nat :: "nat \<Rightarrow> string" where
  "str_nat n =
     (if n < 10 then [char_of (48 + n)]
      else str_nat (n div 10) @ [char_of (48 + n mod 10)])"

declare str_nat.simps [simp del]

definition str_int :: "int \<Rightarrow> string" where
  "str_int i = (if i < 0 then CHR ''-'' # str_nat (nat (- i)) else str_nat (nat i))"

text \<open>
  A dictionary key as Python compares it: an integer and a string are never equal.
  The id tables have integer keys only (\<open>py_keys\<close> is the table as a lookup with an
  arbitrary Python key sees it); \<^verbatim>\<open>get_similar_users_recommendation\<close> probes one of
  them with a string.
\<close>

datatype pyval = PInt int | PStr string

definition py_keys :: "(int, 'v) dict \<Rightarrow> (pyval, 'v) dict" where
  "py_keys d = map (\<lambda>kv. (PInt (fst kv), snd kv)) d"

subsection \<open>Transactions, the user-item matrix, the library\<close>

text \<open>A row of the transaction table, and of \<^verbatim>\<open>top_purchases\<close> (there \<open>quantity\<close> is the count).\<close>

record interaction =
  user_id :: int
  item_id :: int
  quantity :: int

text \<open>A labelled matrix (a DataFrame, or the sparse matrix made from it), row-major.\<close>

record matrix =
  m_index :: "int list"
  m_columns :: "int list"
  m_values :: "real list list"

definition transpose_m :: "matrix \<Rightarrow> matrix" where
  "transpose_m m =
     \<lparr>m_index = m_columns m, m_columns = m_index m,
      m_values = map (\<lambda>j. map (\<lambda>row. row ! j) (m_values m)) [0..<length (m_columns m)]\<rparr>"

text \<open>
  The methods of a fitted \<^verbatim>\<open>implicit\<close> model that the class calls, with the arguments
  in the order the class passes them:
  \<^verbatim>\<open>recommend(userid, user_items, N, filter_already_liked_items, filter_items, recalculate_user)\<close>
  returns the pair (ids, scores), of which the class takes component 0 or 1;
  \<^verbatim>\<open>similar_items(itemid, N)\<close> and \<^verbatim>\<open>similar_users(userid, N)\<close> return what the class
  iterates over with \<^verbatim>\<open>for rec in ...\<close>, reading \<^verbatim>\<open>rec[0]\<close> as an internal index: a list
  of rows (index, score), most similar first;
  \<^verbatim>\<open>rank_items(userid, user_items, selected_items, recalculate_user)\<close> returns (ids, scores).
\<close>

record model =
  recommend :: "int \<Rightarrow> matrix \<Rightarrow> int \<Rightarrow> bool \<Rightarrow> int list \<Rightarrow> bool \<Rightarrow> error + (int list \<times> real list)"
  similar_items :: "int \<Rightarrow> int \<Rightarrow> error + (int \<times> real) list"
  similar_users :: "int \<Rightarrow> int \<Rightarrow> error + (int \<times> real) list"
  rank_items :: "int \<Rightarrow> matrix \<Rightarrow> int list \<Rightarrow> bool \<Rightarrow> error + (int list \<times> real list)"

text \<open>
  The library: \<^verbatim>\<open>bm25_weight(X, B, K1)\<close> and the five constructors, each taken together
  with its \<^verbatim>\<open>fit\<close> call on the matrix.
\<close>

record library =
  bm25_weight :: "matrix \<Rightarrow> real \<Rightarrow> real \<Rightarrow> error + matrix"
  AlternatingLeastSquares :: "nat \<Rightarrow> real \<Rightarrow> nat \<Rightarrow> nat \<Rightarrow> matrix \<Rightarrow> error + model"
  BM25Recommender :: "matrix \<Rightarrow> error + model"
  TFIDFRecommender :: "matrix \<Rightarrow> error + model"
  CosineRecommender :: "nat \<Rightarrow> matrix \<Rightarrow> error + model"
  ItemItemRecommender :: "nat \<Rightarrow> nat \<Rightarrow> matrix \<Rightarrow> error + model"

subsection \<open>The object\<close>

text \<open>
  The attributes \<^verbatim>\<open>__init__\<close> assigns. The five model-valued attributes are kept by
  name in \<open>model_attrs\<close>, as Python keeps them, because a method reads an attribute by
  a name (\<^verbatim>\<open>self.model_als\<close>) and reading a name that was never assigned raises
  AttributeError.
\<close>

record recommender =
  top_purchases :: "interaction list"
  overall_top_purchases :: "int list"
  user_item_matrix :: matrix
  id_to_itemid :: "(int, int) dict"
  id_to_userid :: "(int, int) dict"
  itemid_to_id :: "(int, int) dict"
  userid_to_id :: "(int, int) dict"
  model_attrs :: "(string, model) dict"

definition getattr :: "recommender \<Rightarrow> string \<Rightarrow> error + model" where
  "getattr s name = (case map_of (model_attrs s) name of None \<Rightarrow> Inl AttributeError | Some m \<Rightarrow> Inr m)"

section \<open>Construction\<close>

text \<open>
  \<^verbatim>\<open>groupby(keys)['quantity'].count().reset_index()\<close>: one row per distinct key, in
  ascending key order, with the number of transactions of that key.
\<close>

definition groupby_count :: "('k::linorder) list \<Rightarrow> ('k \<times> int) list" where
  "groupby_count ks = map (\<lambda>k. (k, int (count_list ks k))) (sort (remdups ks))"

text \<open>
  \<^verbatim>\<open>sort_values('quantity', ascending=False)\<close>: descending by count. The order pandas
  gives to rows of equal count is left to its sorting routine; here they keep their order.
\<close>

definition sort_values_desc :: "('a \<Rightarrow> int) \<Rightarrow> 'a list \<Rightarrow> 'a list" where
  "sort_values_desc q rows = sort_key (\<lambda>r. - q r) rows"

definition prepare_matrix :: "interaction list \<Rightarrow> matrix" where
  "prepare_matrix data =
     (let users = sort (remdups (map user_id data));
          items = sort (remdups (map item_id data))
      in \<lparr>m_index = users, m_columns = items,
          m_values = map (\<lambda>u. map (\<lambda>i. real (count_list (map (\<lambda>r. (user_id r, item_id r)) data) (u, i))) items) users\<rparr>)"

definition prepare_dicts ::
  "matrix \<Rightarrow> (int, int) dict \<times> (int, int) dict \<times> (int, int) dict \<times> (int, int) dict" where
  "prepare_dicts uim =
     (let userids = m_index uim;
          itemids = m_columns uim;
          matrix_userids = map int [0..<length userids];
          matrix_itemids = map int [0..<length itemids];
          id_to_itemid = dict_zip matrix_itemids itemids;
          id_to_userid = dict_zip matrix_userids userids;
          itemid_to_id = dict_zip itemids matrix_itemids;
          userid_to_id = dict_zip userids matrix_userids
      in (id_to_itemid, id_to_userid, itemid_to_id, userid_to_id))"

definition fit_own_recommender :: "library \<Rightarrow> matrix \<Rightarrow> error + model" where
  "fit_own_recommender lib uim = ItemItemRecommender lib 1 4 (transpose_m uim)"

definition fit :: "library \<Rightarrow> matrix \<Rightarrow> nat \<Rightarrow> real \<Rightarrow> nat \<Rightarrow> nat \<Rightarrow> error + model" where
  "fit lib uim n_factors regularization iterations num_threads =
     AlternatingLeastSquares lib n_factors regularization iterations num_threads (transpose_m uim)"

definition fit_bm25 :: "library \<Rightarrow> matrix \<Rightarrow> error + model" where
  "fit_bm25 lib uim = BM25Recommender lib (transpose_m uim)"

definition fit_tfidf :: "library \<Rightarrow> matrix \<Rightarrow> error + model" where
  "fit_tfidf lib uim = TFIDFRecommender lib (transpose_m uim)"

definition fit_cosine :: "library \<Rightarrow> matrix \<Rightarrow> error + model" where
  "fit_cosine lib uim = CosineRecommender lib 2 (transpose_m uim)"

text \<open>\<^verbatim>\<open>__init__(data, weighting)\<close>; an error of the library leaves no object.\<close>

definition init :: "library \<Rightarrow> interaction list \<Rightarrow> bool \<Rightarrow> error + recommender" where
  "init lib data weighting =
     (let tp = map (\<lambda>(k, c). \<lparr>user_id = fst k, item_id = snd k, quantity = c\<rparr>)
                 (groupby_count (map (\<lambda>r. (user_id r, item_id r)) data));
          tp = sort_values_desc quantity tp;
          tp = filter (\<lambda>r. item_id r \<noteq> 999999) tp;
          otp = groupby_count (map item_id data);
          otp = sort_values_desc snd otp;
          otp = filter (\<lambda>r. fst r \<noteq> 999999) otp;
          otp = map fst otp;
          uim = prepare_matrix data;
          (i2item, i2user, item2i, user2i) = prepare_dicts uim
      in bindE (if weighting then bm25_weight lib (transpose_m uim) (1 / 10) 5 else Inr uim) (\<lambda>uim.
         bindE (fit lib uim 512 (4 / 100) 20 0) (\<lambda>m.
         bindE (fit_bm25 lib uim) (\<lambda>m_bm25.
         bindE (fit_tfidf lib uim) (\<lambda>m_tfidf.
         bindE (fit_cosine lib uim) (\<lambda>m_cosine.
         bindE (fit_own_recommender lib uim) (\<lambda>own.
         Inr \<lparr>top_purchases = tp, overall_top_purchases = otp, user_item_matrix = uim,
              id_to_itemid = i2item, id_to_userid = i2user,
              itemid_to_id = item2i, userid_to_id = user2i,
              model_attrs = [(''model'', m), (''model_bm25'', m_bm25), (''model_tfidf'', m_tfidf),
                             (''model_cosine'', m_cosine), (''own_recommender'', own)]\<rparr>)))))))"

section \<open>Methods\<close>

text \<open>
  \<^verbatim>\<open>_update_dict(user_id)\<close>. It raises (ValueError, from \<^verbatim>\<open>max\<close>) before it changes
  anything, so on an error the object is as before.
\<close>

definition update_dict :: "recommender \<Rightarrow> int \<Rightarrow> error + recommender" where
  "update_dict s uid =
     (if uid \<notin> fst ` set (userid_to_id s) then
        bindE (py_max (map snd (userid_to_id s))) (\<lambda>max_id.
          let max_id = max_id + 1
          in Inr (s\<lparr>userid_to_id := AList.update uid max_id (userid_to_id s),
                    id_to_userid := AList.update max_id uid (id_to_userid s)\<rparr>))
      else Inr s)"

text \<open>
  \<^verbatim>\<open>_get_similar_item(item_id)\<close>: the loop compares component 0 of each row (an
  internal index) with \<^verbatim>\<open>item_id\<close> (the external id it was called with).
\<close>

fun similar_item_loop :: "recommender \<Rightarrow> int \<Rightarrow> (int \<times> real) list \<Rightarrow> error + int option" where
  "similar_item_loop s item [] = Inr None"
| "similar_item_loop s item (rec # recs) =
     (if fst rec \<noteq> item then bindE (dict_get (id_to_itemid s) (fst rec)) (\<lambda>v. Inr (Some v))
      else similar_item_loop s item recs)"

definition get_similar_item :: "recommender \<Rightarrow> int \<Rightarrow> error + int option" where
  "get_similar_item s item =
     bindE (getattr s ''model'') (\<lambda>m.
     bindE (dict_get (itemid_to_id s) item) (\<lambda>idx.
     bindE (similar_items m idx 2) (\<lambda>recs.
     similar_item_loop s item recs)))"

text \<open>
  \<^verbatim>\<open>_extend_with_top_popular(recommendations, N)\<close>; the first argument is
  \<^verbatim>\<open>self.overall_top_purchases\<close>, the only attribute it reads.
\<close>

definition extend_with_top_popular :: "'a list \<Rightarrow> 'a list \<Rightarrow> int \<Rightarrow> 'a list" where
  "extend_with_top_popular popular recommendations N =
     (if int (length recommendations) < N
      then py_take N (recommendations @ py_take N popular)
      else recommendations)"

text \<open>\<^verbatim>\<open>assert len(res) == N\<close>.\<close>

definition assert_len :: "'a list \<Rightarrow> int \<Rightarrow> error + 'a list" where
  "assert_len res N = (if int (length res) = N then Inr res else Inl AssertionError)"

text \<open>
  \<^verbatim>\<open>_get_recommendations(user, model, N)\<close>. The methods return the result together
  with the object as the call leaves it.
\<close>

definition get_recommendations ::
  "recommender \<Rightarrow> int \<Rightarrow> model \<Rightarrow> int \<Rightarrow> (error + int list) \<times> recommender" where
  "get_recommendations s user m N =
     (case update_dict s user of
        Inl e \<Rightarrow> (Inl e, s)
      | Inr s1 \<Rightarrow>
          (bindE (dict_get (userid_to_id s1) user) (\<lambda>uidx.
           bindE (dict_get (itemid_to_id s1) 999999) (\<lambda>sentinel.
           bindE (recommend m uidx (user_item_matrix s1) N False [sentinel] False) (\<lambda>out.
           bindE (mapE (dict_get (id_to_itemid s1)) (fst out)) (\<lambda>res.
           assert_len (extend_with_top_popular (overall_top_purchases s1) res N) N)))), s1))"

text \<open>
  The five wrappers: \<^verbatim>\<open>self._update_dict(user)\<close>, then the attribute is read, then
  \<^verbatim>\<open>_get_recommendations\<close>.
\<close>

definition recommendations_via ::
  "string \<Rightarrow> recommender \<Rightarrow> int \<Rightarrow> int \<Rightarrow> (error + int list) \<times> recommender" where
  "recommendations_via attr s user N =
     (case update_dict s user of
        Inl e \<Rightarrow> (Inl e, s)
      | Inr s1 \<Rightarrow>
          (case getattr s1 attr of
             Inl e \<Rightarrow> (Inl e, s1)
           | Inr m \<Rightarrow> get_recommendations s1 user m N))"

definition get_als_recommendations :: "recommender \<Rightarrow> int \<Rightarrow> int \<Rightarrow> (error + int list) \<times> recommender" where
  "get_als_recommendations s user N = recommendations_via ''model'' s user N"

definition get_bm25_recommendations :: "recommender \<Rightarrow> int \<Rightarrow> int \<Rightarrow> (error + int list) \<times> recommender" where
  "get_bm25_recommendations s user N = recommendations_via ''model_bm25'' s user N"

definition get_tfidf_recommendations :: "recommender \<Rightarrow> int \<Rightarrow> int \<Rightarrow> (error + int list) \<times> recommender" where
  "get_tfidf_recommendations s user N = recommendations_via ''model_tfidf'' s user N"

definition get_cosine_recommendations :: "recommender \<Rightarrow> int \<Rightarrow> int \<Rightarrow> (error + int list) \<times> recommender" where
  "get_cosine_recommendations s user N = recommendations_via ''model_cosine'' s user N"

definition get_own_recommendations :: "recommender \<Rightarrow> int \<Rightarrow> int \<Rightarrow> (error + int list) \<times> recommender" where
  "get_own_recommendations s user N = recommendations_via ''own_recommender'' s user N"

text \<open>
  \<^verbatim>\<open>get_similar_items_recommendation(user_id, N)\<close>. An entry of the list is an item id
  or \<^verbatim>\<open>None\<close> (what \<^verbatim>\<open>_get_similar_item\<close> returns when its loop ends); the conversion of
  such a column to floating point by pandas is not modelled.
\<close>

definition get_similar_items_recommendation ::
  "recommender \<Rightarrow> int \<Rightarrow> int \<Rightarrow> (error + int option list) \<times> recommender" where
  "get_similar_items_recommendation s uid N =
     (let top_users_purchases = py_take N (filter (\<lambda>r. user_id r = uid) (top_purchases s))
      in (bindE (mapE (\<lambda>x. get_similar_item s x) (map item_id top_users_purchases)) (\<lambda>res.
          assert_len (extend_with_top_popular (map Some (overall_top_purchases s)) res N) N), s))"

text \<open>
  \<^verbatim>\<open>get_similar_users_recommendation(user_id, N)\<close>. The loop over the similar users
  calls \<^verbatim>\<open>get_own_recommendations(_user_id, N=1)\<close> and so threads the object.
\<close>

fun own_loop :: "recommender \<Rightarrow> int list \<Rightarrow> int list \<Rightarrow> (error + int list) \<times> recommender" where
  "own_loop s [] res = (Inr res, s)"
| "own_loop s (u # us) res =
     (case get_own_recommendations s u 1 of
        (Inl e, s1) \<Rightarrow> (Inl e, s1)
      | (Inr r, s1) \<Rightarrow> own_loop s1 us (res @ r))"

definition similar_user_ids :: "recommender \<Rightarrow> (int \<times> real) list \<Rightarrow> int list" where
  "similar_user_ids s recs =
     map (\<lambda>rec. the (map_of (py_keys (id_to_userid s)) (PStr (str_int (fst rec)))))
       (filter (\<lambda>rec. PStr (str_int (fst rec)) \<in> fst ` set (py_keys (id_to_userid s))) recs)"

definition get_similar_users_recommendation ::
  "recommender \<Rightarrow> int \<Rightarrow> int \<Rightarrow> (error + int list) \<times> recommender" where
  "get_similar_users_recommendation s uid N =
     (case bindE (getattr s ''model'') (\<lambda>m.
           bindE (dict_get (userid_to_id s) uid) (\<lambda>idx.
           similar_users m idx (N + 1))) of
        Inl e \<Rightarrow> (Inl e, s)
      | Inr recs \<Rightarrow>
          (let similar = similar_user_ids s recs;
               similar = tl similar
           in case own_loop s similar [] of
                (Inl e, s1) \<Rightarrow> (Inl e, s1)
              | (Inr res, s1) \<Rightarrow>
                  (assert_len (extend_with_top_popular (overall_top_purchases s1) res N) N, s1)))"

text \<open>\<^verbatim>\<open>_get_scores(user, model, N)\<close>.\<close>

definition get_scores ::
  "recommender \<Rightarrow> int \<Rightarrow> model \<Rightarrow> int \<Rightarrow> (error + real list) \<times> recommender" where
  "get_scores s user m N =
     (case update_dict s user of
        Inl e \<Rightarrow> (Inl e, s)
      | Inr s1 \<Rightarrow>
          (bindE (dict_get (userid_to_id s1) user) (\<lambda>uidx.
           bindE (dict_get (itemid_to_id s1) 999999) (\<lambda>sentinel.
           bindE (recommend m uidx (user_item_matrix s1) N False [sentinel] True) (\<lambda>out.
           bindE (if int (length (snd out)) < N then
                    bindE (dict_get (userid_to_id s1) user) (\<lambda>uidx.
                    bindE (mapE (dict_get (itemid_to_id s1)) (overall_top_purchases s1)) (\<lambda>selected.
                    bindE (rank_items m uidx (user_item_matrix s1) selected True) (\<lambda>ranked.
                    Inr (snd out @ snd ranked))))
                  else Inr (snd out)) (\<lambda>scores_rec.
           assert_len (py_take N scores_rec) N)))), s1))"

definition scores_via ::
  "string \<Rightarrow> recommender \<Rightarrow> int \<Rightarrow> int \<Rightarrow> (error + real list) \<times> recommender" where
  "scores_via attr s user N =
     (case update_dict s user of
        Inl e \<Rightarrow> (Inl e, s)
      | Inr s1 \<Rightarrow>
          (case getattr s1 attr of
             Inl e \<Rightarrow> (Inl e, s1)
           | Inr m \<Rightarrow> get_scores s1 user m N))"

definition get_als_scores :: "recommender \<Rightarrow> int \<Rightarrow> int \<Rightarrow> (error + real list) \<times> recommender" where
  "get_als_scores s user N = scores_via ''model_als'' s user N"

definition get_bm25_scores :: "recommender \<Rightarrow> int \<Rightarrow> int \<Rightarrow> (error + real list) \<times> recommender" where
  "get_bm25_scores s user N = scores_via ''model_bm25'' s user N"

definition get_tfidf_scores :: "recommender \<Rightarrow> int \<Rightarrow> int \<Rightarrow> (error + real list) \<times> recommender" where
  "get_tfidf_scores s user N = scores_via ''model_tfidf'' s user N"

definition get_cosine_scores :: "recommender \<Rightarrow> int \<Rightarrow> int \<Rightarrow> (error + real list) \<times> recommender" where
  "get_cosine_scores s user N = scores_via ''model_cosine'' s user N"

definition get_own_scores :: "recommender \<Rightarrow> int \<Rightarrow> int \<Rightarrow> (error + real list) \<times> recommender" where
  "get_own_scores s user N = scores_via ''own_recommender'' s user N"

text \<open>
  The remaining method, \<^verbatim>\<open>tfidf_score\<close>, hands its arguments to \<^verbatim>\<open>rank_items\<close> and is
  not part of any property stated below.
\<close>

section \<open>A small recommender\<close>

text \<open>
  Seven transactions of two users over four items, one of them the sentinel 999999,
  and a library whose five constructors return the same model. The model ranks fixed
  candidate lists, honours \<open>N\<close> and \<open>filter_items\<close>, knows the two users of the
  matrix and raises for any other user index. An item's nearest neighbours are itself
  and the item of index \<open>3 - i\<close>; item 50 and the sentinel were bought by the same
  user the same number of times, they are equally near to item 50, and the model
  lists the sentinel first.
\<close>

definition demo_data :: "interaction list" where
  "demo_data = map (\<lambda>(u, i). \<lparr>user_id = u, item_id = i, quantity = 1\<rparr>)
     [(1, 50), (1, 100), (1, 100), (1, 999999), (2, 200), (2, 100), (2, 200)]"

definition demo_model :: model where
  "demo_model =
     \<lparr>recommend = (\<lambda>u m N liked filt recalc.
        if u = 0 \<or> u = 1 then
          (let ids = py_take N (filter (\<lambda>i. i \<notin> set filt) (if u = 0 then [1, 0, 2, 3] else [2, 3, 1]))
           in Inr (ids, map (\<lambda>i. 1) ids))
        else Inl LibraryError),
      similar_items = (\<lambda>i N. Inr (py_take N (if i = 0 then [(3, 1), (0, 1)] else [(i, 1), (3 - i, 1 / 2)]))),
      similar_users = (\<lambda>u N. Inr (py_take N [(u, 1), (1 - u, 1 / 2)])),
      rank_items = (\<lambda>u m sel recalc. Inr (sel, map (\<lambda>i. 1 / 4) sel))\<rparr>"

definition demo_lib :: library where
  "demo_lib =
     \<lparr>bm25_weight = (\<lambda>X B K1. Inr X),
      AlternatingLeastSquares = (\<lambda>f r i t X. Inr demo_model),
      BM25Recommender = (\<lambda>X. Inr demo_model),
      TFIDFRecommender = (\<lambda>X. Inr demo_model),
      CosineRecommender = (\<lambda>K X. Inr demo_model),
      ItemItemRecommender = (\<lambda>K t X. Inr demo_model)\<rparr>"

text \<open>The object \<^verbatim>\<open>MainRecommender(demo_data, weighting=True)\<close> (lemma \<open>init_demo\<close>).\<close>

definition demo :: recommender where
  "demo =
     \<lparr>top_purchases =
        [\<lparr>user_id = 1, item_id = 100, quantity = 2\<rparr>, \<lparr>user_id = 2, item_id = 200, quantity = 2\<rparr>,
         \<lparr>user_id = 1, item_id = 50, quantity = 1\<rparr>, \<lparr>user_id = 2, item_id = 100, quantity = 1\<rparr>],
      overall_top_purchases = [100, 200, 50],
      user_item_matrix = transpose_m (prepare_matrix demo_data),
      id_to_itemid = [(0, 50), (1, 100), (2, 200), (3, 999999)],
      id_to_userid = [(0, 1), (1, 2)],
      itemid_to_id = [(50, 0), (100, 1), (200, 2), (999999, 3)],
      userid_to_id = [(1, 0), (2, 1)],
      model_attrs = [(''model'', demo_model), (''model_bm25'', demo_model), (''model_tfidf'', demo_model),
                     (''model_cosine'', demo_model), (''own_recommender'', demo_model)]\<rparr>"

section \<open>The invariant of the id tables\<close>

text \<open>
  Two tables are mutual inverses when each has distinct keys (as a Python dict has) and
  the second holds exactly the pairs of the first, swapped. Both conditions are checked
  on the lists, so the predicate can be evaluated.
\<close>

definition mutual_inverses :: "('a, 'b) dict \<Rightarrow> ('b, 'a) dict \<Rightarrow> bool" where
  "mutual_inverses f g \<longleftrightarrow>
     distinct (map fst f) \<and> distinct (map fst g) \<and> set g = (\<lambda>kv. (snd kv, fst kv)) ` set f"

definition tables_bijective :: "recommender \<Rightarrow> bool" where
  "tables_bijective s \<longleftrightarrow>
     mutual_inverses (userid_to_id s) (id_to_userid s) \<and>
     mutual_inverses (itemid_to_id s) (id_to_itemid s)"

section \<open>Auxiliary facts\<close>

lemmas demo_eval = demo_def demo_model_def recommendations_via_def scores_via_def get_recommendations_def
  get_scores_def update_dict_def getattr_def dict_get_def bindE_def assert_len_def
  extend_with_top_popular_def py_take_def get_similar_item_def similar_user_ids_def py_keys_def

lemma init_demo: "init demo_lib demo_data True = Inr demo"
  by (simp add: init_def demo_def demo_lib_def demo_data_def groupby_count_def sort_values_desc_def
      prepare_dicts_def prepare_matrix_def dict_zip_def bindE_def fit_def fit_bm25_def fit_tfidf_def
      fit_cosine_def fit_own_recommender_def transpose_m_def Let_def upt_rec)

lemma length_py_take:
  "length (py_take n xs) = (if 0 \<le> n then min (nat n) (length xs) else length xs - nat (- n))"
  by (auto simp: py_take_def)

lemma extend_short:
  "int (length recs) < N \<Longrightarrow>
   extend_with_top_popular popular recs N = take (nat N) (recs @ take (nat N) popular)"
  by (simp add: extend_with_top_popular_def py_take_def)

lemma extend_long:
  "N \<le> int (length recs) \<Longrightarrow> extend_with_top_popular popular recs N = recs"
  by (simp add: extend_with_top_popular_def)


lemma assert_len_Inr: "assert_len res N = Inr r \<Longrightarrow> r = res \<and> int (length r) = N"
  by (auto simp: assert_len_def split: if_splits)

lemma assert_len_Inl: "assert_len res N = Inl e \<longleftrightarrow> e = AssertionError \<and> int (length res) \<noteq> N"
  by (auto simp: assert_len_def)

lemma mapE_Inr:
  "mapE (dict_get d) xs = Inr ys \<Longrightarrow> ys = map (\<lambda>i. the (map_of d i)) xs"
  by (induction xs arbitrary: ys) (auto simp: dict_get_def split: sum.splits option.splits)

lemma mapE_length: "mapE f xs = Inr ys \<Longrightarrow> length ys = length xs"
  by (induction xs arbitrary: ys) (auto split: sum.splits)

lemma bindE_Inr: "bindE r f = Inr y \<longleftrightarrow> (\<exists>v. r = Inr v \<and> f v = Inr y)"
  by (cases r) (simp_all add: bindE_def)

lemma get_recommendations_Inr:
  "fst (get_recommendations s u m N) = Inr res \<Longrightarrow> int (length res) = N"
  by (auto simp: get_recommendations_def bindE_Inr split: sum.splits dest: assert_len_Inr)

lemma recommendations_via_Inr:
  "fst (recommendations_via a s u N) = Inr res \<Longrightarrow> int (length res) = N"
  by (auto simp: recommendations_via_def split: sum.splits dest: get_recommendations_Inr)

lemma similar_items_Inr:
  "fst (get_similar_items_recommendation s u N) = Inr res \<Longrightarrow> int (length res) = N"
  by (auto simp: get_similar_items_recommendation_def Let_def bindE_Inr dest: assert_len_Inr)

lemma similar_users_Inr:
  "fst (get_similar_users_recommendation s u N) = Inr res \<Longrightarrow> int (length res) = N"
  by (auto simp: get_similar_users_recommendation_def Let_def split: sum.splits prod.splits dest: assert_len_Inr)

subsection \<open>Facts about \<open>update_dict\<close>\<close>

lemma py_max_nonempty:
  assumes "xs \<noteq> []"
  shows "py_max xs = Inr (Max (set xs))"
proof (cases xs)
  case Nil
  with assms show ?thesis by simp
next
  case (Cons y ys)
  have "fold max ys y = Max (set (y # ys))" by (rule Max.set_eq_fold [symmetric])
  with Cons show ?thesis by (simp add: py_max_def)
qed

lemma update_new_key: "k \<notin> fst ` set al \<Longrightarrow> AList.update k v al = al @ [(k, v)]"
  by (induction al) auto

lemma Max_plus_one_fresh:
  fixes A :: "int set"
  assumes "finite A"
  shows "Max A + 1 \<notin> A"
proof
  assume "Max A + 1 \<in> A"
  with assms have "Max A + 1 \<le> Max A" by (rule Max_ge)
  then show False by simp
qed

lemma update_dict_known: "u \<in> fst ` set (userid_to_id s) \<Longrightarrow> update_dict s u = Inr s"
  by (simp add: update_dict_def)

lemma update_dict_empty:
  "userid_to_id s = [] \<Longrightarrow> update_dict s u = Inl ValueError"
  by (simp add: update_dict_def py_max_def bindE_def)

lemma update_dict_new:
  assumes "u \<notin> fst ` set (userid_to_id s)" and "userid_to_id s \<noteq> []"
  shows "update_dict s u =
    Inr (s\<lparr>userid_to_id := userid_to_id s @ [(u, Max (snd ` set (userid_to_id s)) + 1)],
           id_to_userid := AList.update (Max (snd ` set (userid_to_id s)) + 1) u (id_to_userid s)\<rparr>)"
proof -
  from assms(2) have "py_max (map snd (userid_to_id s)) = Inr (Max (snd ` set (userid_to_id s)))"
    by (simp add: py_max_nonempty)
  with assms(1) show ?thesis
    by (simp add: update_dict_def bindE_def update_new_key)
qed

lemma update_dict_Inr_cases:
  assumes "update_dict s u = Inr s1"
  obtains (known) "u \<in> fst ` set (userid_to_id s)" "s1 = s"
  | (new) "u \<notin> fst ` set (userid_to_id s)" "userid_to_id s \<noteq> []"
      "s1 = s\<lparr>userid_to_id := userid_to_id s @ [(u, Max (snd ` set (userid_to_id s)) + 1)],
             id_to_userid := AList.update (Max (snd ` set (userid_to_id s)) + 1) u (id_to_userid s)\<rparr>"
proof (cases "u \<in> fst ` set (userid_to_id s)")
  case True
  with assms have "s1 = s" by (simp add: update_dict_known)
  with True show ?thesis by (rule known)
next
  case False
  show ?thesis
  proof (cases "userid_to_id s = []")
    case True
    with assms show ?thesis by (simp add: update_dict_empty)
  next
    case ne: False
    from assms update_dict_new [OF False ne] have "s1 = s\<lparr>userid_to_id := userid_to_id s @ [(u, Max (snd ` set (userid_to_id s)) + 1)],
             id_to_userid := AList.update (Max (snd ` set (userid_to_id s)) + 1) u (id_to_userid s)\<rparr>"
      by simp
    with False ne show ?thesis by (rule new)
  qed
qed

lemma update_dict_member:
  assumes "update_dict s u = Inr s1"
  shows "u \<in> fst ` set (userid_to_id s1)"
  using assms by (cases rule: update_dict_Inr_cases) simp_all

lemma update_dict_idem:
  assumes "update_dict s u = Inr s1"
  shows "update_dict s1 u = Inr s1"
  using update_dict_member [OF assms] by (rule update_dict_known)

lemma recommendations_via_state:
  assumes "update_dict s u = Inr s1"
  shows "snd (recommendations_via attr s u N) = s1"
  using assms update_dict_idem [OF assms]
  by (simp add: recommendations_via_def get_recommendations_def split: sum.splits)

lemma scores_via_state:
  assumes "update_dict s u = Inr s1"
  shows "snd (scores_via attr s u N) = s1"
  using assms update_dict_idem [OF assms]
  by (simp add: scores_via_def get_scores_def split: sum.splits)

subsection \<open>Facts about the id tables\<close>

lemma mutual_inverses_lookup:
  assumes "mutual_inverses f g"
  shows "map_of f k = Some v \<longleftrightarrow> map_of g v = Some k"
proof -
  from assms have "map_of f k = Some v \<longleftrightarrow> (k, v) \<in> set f"
    by (simp add: mutual_inverses_def)
  moreover from assms have "map_of g v = Some k \<longleftrightarrow> (v, k) \<in> set g"
    by (simp add: mutual_inverses_def)
  moreover from assms have "(v, k) \<in> set g \<longleftrightarrow> (k, v) \<in> set f"
    by (force simp: mutual_inverses_def image_iff)
  ultimately show ?thesis by simp
qed

lemma mutual_inverses_keys:
  assumes "mutual_inverses f g"
  shows "fst ` set g = snd ` set f"
  using assms by (force simp: mutual_inverses_def image_iff)

lemma mutual_inverses_append:
  assumes "mutual_inverses f g" and "k \<notin> fst ` set f" and "v \<notin> snd ` set f"
  shows "mutual_inverses (f @ [(k, v)]) (g @ [(v, k)])"
proof -
  from assms(1,3) have "v \<notin> fst ` set g" by (simp add: mutual_inverses_keys)
  with assms show ?thesis
    by (auto simp: mutual_inverses_def image_iff)
qed

lemma mutual_inverses_zip:
  assumes "distinct ks" and "distinct vs" and "length ks = length vs"
  shows "mutual_inverses (zip ks vs) (zip vs ks)"
proof -
  have "zip vs ks = map (\<lambda>(x, y). (y, x)) (zip ks vs)" by (rule zip_commute)
  then have "set (zip vs ks) = (\<lambda>kv. (snd kv, fst kv)) ` set (zip ks vs)"
    by (simp add: case_prod_beta)
  with assms show ?thesis by (simp add: mutual_inverses_def)
qed

lemma fold_update_distinct:
  "distinct (map fst acc @ map fst ps) \<Longrightarrow>
   fold (\<lambda>kv d. AList.update (fst kv) (snd kv) d) ps acc = acc @ ps"
proof (induction ps arbitrary: acc)
  case Nil
  then show ?case by simp
next
  case (Cons p ps)
  then have "fst p \<notin> fst ` set acc" by auto
  then have "AList.update (fst p) (snd p) acc = acc @ [p]" by (simp add: update_new_key)
  moreover from Cons.prems have "distinct (map fst (acc @ [p]) @ map fst ps)" by auto
  ultimately show ?case using Cons.IH [of "acc @ [p]"] by simp
qed

lemma dict_zip_distinct:
  assumes "distinct ks" and "length ks = length vs"
  shows "dict_zip ks vs = zip ks vs"
proof -
  from assms have "distinct (map fst [] @ map fst (zip ks vs))" by simp
  then have "fold (\<lambda>kv d. AList.update (fst kv) (snd kv) d) (zip ks vs) [] = [] @ zip ks vs"
    by (rule fold_update_distinct)
  then show ?thesis by (simp add: dict_zip_def)
qed

lemma distinct_arange: "distinct (map int [0..<n])"
  by (simp add: distinct_map)

lemma tables_bijective_update_dict:
  assumes "tables_bijective s" and "update_dict s uid = Inr s1"
  shows "tables_bijective s1"
  using assms(2)
proof (cases rule: update_dict_Inr_cases)
  case known
  with assms(1) show ?thesis by simp
next
  case new
  let ?m = "Max (snd ` set (userid_to_id s)) + 1"
  from assms(1) have mi: "mutual_inverses (userid_to_id s) (id_to_userid s)"
    by (simp add: tables_bijective_def)
  have fresh: "?m \<notin> snd ` set (userid_to_id s)"
    by (rule Max_plus_one_fresh) simp
  with mi have "?m \<notin> fst ` set (id_to_userid s)" by (simp add: mutual_inverses_keys)
  then have g: "AList.update ?m uid (id_to_userid s) = id_to_userid s @ [(?m, uid)]"
    by (rule update_new_key)
  from mi new(1) fresh
  have "mutual_inverses (userid_to_id s @ [(uid, ?m)]) (id_to_userid s @ [(?m, uid)])"
    by (rule mutual_inverses_append)
  with assms(1) new(3) g show ?thesis by (simp add: tables_bijective_def)
qed

lemma init_tables:
  assumes "init lib data weighting = Inr s"
  shows "userid_to_id s = zip (m_index (prepare_matrix data)) (map int [0..<length (m_index (prepare_matrix data))])"
    and "id_to_userid s = zip (map int [0..<length (m_index (prepare_matrix data))]) (m_index (prepare_matrix data))"
    and "itemid_to_id s = zip (m_columns (prepare_matrix data)) (map int [0..<length (m_columns (prepare_matrix data))])"
    and "id_to_itemid s = zip (map int [0..<length (m_columns (prepare_matrix data))]) (m_columns (prepare_matrix data))"
proof -
  have du: "distinct (m_index (prepare_matrix data))" and di: "distinct (m_columns (prepare_matrix data))"
    by (simp_all add: prepare_matrix_def Let_def)
  from assms have
    "userid_to_id s = dict_zip (m_index (prepare_matrix data)) (map int [0..<length (m_index (prepare_matrix data))])"
    "id_to_userid s = dict_zip (map int [0..<length (m_index (prepare_matrix data))]) (m_index (prepare_matrix data))"
    "itemid_to_id s = dict_zip (m_columns (prepare_matrix data)) (map int [0..<length (m_columns (prepare_matrix data))])"
    "id_to_itemid s = dict_zip (map int [0..<length (m_columns (prepare_matrix data))]) (m_columns (prepare_matrix data))"
    by (auto simp: init_def prepare_dicts_def Let_def bindE_Inr)
  with du di show
    "userid_to_id s = zip (m_index (prepare_matrix data)) (map int [0..<length (m_index (prepare_matrix data))])"
    "id_to_userid s = zip (map int [0..<length (m_index (prepare_matrix data))]) (m_index (prepare_matrix data))"
    "itemid_to_id s = zip (m_columns (prepare_matrix data)) (map int [0..<length (m_columns (prepare_matrix data))])"
    "id_to_itemid s = zip (map int [0..<length (m_columns (prepare_matrix data))]) (m_columns (prepare_matrix data))"
    by (simp_all add: dict_zip_distinct distinct_arange)
qed

lemma init_tables_bijective:
  assumes "init lib data weighting = Inr s"
  shows "tables_bijective s"
proof -
  have du: "distinct (m_index (prepare_matrix data))" and di: "distinct (m_columns (prepare_matrix data))"
    by (simp_all add: prepare_matrix_def Let_def)
  from du have "mutual_inverses (userid_to_id s) (id_to_userid s)"
    unfolding init_tables [OF assms] by (rule mutual_inverses_zip) (simp_all add: distinct_arange)
  moreover from di have "mutual_inverses (itemid_to_id s) (id_to_itemid s)"
    unfolding init_tables [OF assms] by (rule mutual_inverses_zip) (simp_all add: distinct_arange)
  ultimately show ?thesis by (simp add: tables_bijective_def)
qed

subsection \<open>Facts about \<open>get_recommendations\<close>\<close>

lemma get_recommendations_eval:
  assumes "update_dict s user = Inr s1"
    and "dict_get (userid_to_id s1) user = Inr uidx"
    and "dict_get (itemid_to_id s1) 999999 = Inr sentinel"
    and "recommend m uidx (user_item_matrix s1) N False [sentinel] False = Inr (ids, scores)"
    and "mapE (dict_get (id_to_itemid s1)) ids = Inr ext"
  shows "get_recommendations s user m N =
    (assert_len (extend_with_top_popular (overall_top_purchases s1) ext N) N, s1)"
  using assms by (simp add: get_recommendations_def bindE_def)

lemma recommendations_via_eq:
  assumes "update_dict s user = Inr s1" and "getattr s1 attr = Inr m"
  shows "recommendations_via attr s user N = get_recommendations s user m N"
  using assms update_dict_idem [OF assms(1)]
  by (simp add: recommendations_via_def get_recommendations_def)




subsection \<open>Facts about the similarity requests, the attributes and the sentinel\<close>

lemma similar_user_ids_empty: "similar_user_ids s recs = []"
  by (auto simp: similar_user_ids_def py_keys_def filter_empty_conv)

lemma similar_users_only_popular:
  assumes "getattr s ''model'' = Inr m"
    and "dict_get (userid_to_id s) uid = Inr idx"
    and "similar_users m idx (N + 1) = Inr recs"
  shows "get_similar_users_recommendation s uid N =
    (assert_len (extend_with_top_popular (overall_top_purchases s) [] N) N, s)"
  using assms
  by (simp add: get_similar_users_recommendation_def bindE_def similar_user_ids_empty)

lemma init_model_attrs:
  assumes "init lib data weighting = Inr s"
  shows "map fst (model_attrs s) =
    [''model'', ''model_bm25'', ''model_tfidf'', ''model_cosine'', ''own_recommender'']"
  using assms by (auto simp: init_def Let_def bindE_Inr split: prod.splits)

lemma init_no_model_als:
  assumes "init lib data weighting = Inr s"
  shows "getattr s ''model_als'' = Inl AttributeError"
proof -
  have "''model_als'' \<notin> fst ` set (model_attrs s)"
    using init_model_attrs [OF assms] by (simp flip: set_map)
  then have "map_of (model_attrs s) ''model_als'' = None"
    by (simp add: map_of_eq_None_iff)
  then show ?thesis by (simp add: getattr_def)
qed

lemma update_dict_model_attrs:
  assumes "update_dict s u = Inr s1"
  shows "model_attrs s1 = model_attrs s"
  using assms by (cases rule: update_dict_Inr_cases) simp_all

lemma update_dict_Inl:
  assumes "update_dict s u = Inl e"
  shows "e = ValueError"
proof (cases "u \<in> fst ` set (userid_to_id s)")
  case True
  with assms show ?thesis by (simp add: update_dict_known)
next
  case False
  show ?thesis
  proof (cases "userid_to_id s = []")
    case True
    with assms show ?thesis by (simp add: update_dict_empty)
  next
    case ne: False
    from assms update_dict_new [OF False ne] show ?thesis by simp
  qed
qed

lemma get_als_scores_raises:
  assumes "init lib data weighting = Inr s"
  shows "fst (get_als_scores s u N) = Inl AttributeError \<or> fst (get_als_scores s u N) = Inl ValueError"
proof (cases "update_dict s u")
  case (Inl e)
  then have "e = ValueError" by (rule update_dict_Inl)
  with Inl show ?thesis by (simp add: get_als_scores_def scores_via_def)
next
  case (Inr s1)
  then have "getattr s1 ''model_als'' = Inl AttributeError"
    using init_no_model_als [OF assms] by (simp add: getattr_def update_dict_model_attrs)
  with Inr show ?thesis by (simp add: get_als_scores_def scores_via_def)
qed

lemma init_excludes_sentinel:
  assumes "init lib data weighting = Inr s"
  shows "999999 \<notin> set (overall_top_purchases s)" and "999999 \<notin> item_id ` set (top_purchases s)"
  using assms by (auto simp: init_def Let_def bindE_Inr split: prod.splits)

section \<open>The claims\<close>

subsection \<open>C1: a returned list has N entries\<close>

text \<open>
  C1 says that every recommendation request either returns a list of exactly N item
  ids or fails the assertion. On the code a request can also end in an error that
  is not the assertion: \<^verbatim>\<open>get_similar_users_recommendation\<close> looks the user up in
  \<^verbatim>\<open>userid_to_id\<close> without registering it first, so for a user the recommender has
  never seen the lookup raises KeyError.
\<close>

theorem request_for_unknown_user_raises_KeyError:
  "fst (get_similar_users_recommendation demo 42 1) = Inl KeyError"
  by (simp add: get_similar_users_recommendation_def demo_eval)

text \<open>
  C1 as amended: whenever one of the seven requests returns, the list it returns has
  exactly N entries (for \<^verbatim>\<open>get_similar_items_recommendation\<close> an entry is an item id
  or None). A request that does not return has raised: the length assertion, or an
  error of a table lookup, of \<^verbatim>\<open>max\<close> or of the library, which propagates.
\<close>

theorem returned_list_has_length_N:
  "(\<forall>res. fst (get_als_recommendations s u N) = Inr res \<longrightarrow> int (length res) = N) \<and>
   (\<forall>res. fst (get_bm25_recommendations s u N) = Inr res \<longrightarrow> int (length res) = N) \<and>
   (\<forall>res. fst (get_tfidf_recommendations s u N) = Inr res \<longrightarrow> int (length res) = N) \<and>
   (\<forall>res. fst (get_cosine_recommendations s u N) = Inr res \<longrightarrow> int (length res) = N) \<and>
   (\<forall>res. fst (get_own_recommendations s u N) = Inr res \<longrightarrow> int (length res) = N) \<and>
   (\<forall>res. fst (get_similar_items_recommendation s u N) = Inr res \<longrightarrow> int (length res) = N) \<and>
   (\<forall>res. fst (get_similar_users_recommendation s u N) = Inr res \<longrightarrow> int (length res) = N)"
  unfolding get_als_recommendations_def get_bm25_recommendations_def get_tfidf_recommendations_def
    get_cosine_recommendations_def get_own_recommendations_def
  using recommendations_via_Inr similar_items_Inr similar_users_Inr by blast

theorem returned_list_has_length_N_witness:
  "fst (get_als_recommendations demo 1 4) = Inr [100, 50, 200, 100] \<and>
   fst (get_bm25_recommendations demo 1 4) = Inr [100, 50, 200, 100] \<and>
   fst (get_tfidf_recommendations demo 1 4) = Inr [100, 50, 200, 100] \<and>
   fst (get_cosine_recommendations demo 1 4) = Inr [100, 50, 200, 100] \<and>
   fst (get_own_recommendations demo 1 4) = Inr [100, 50, 200, 100] \<and>
   int (length [100, 50, 200, 100 :: int]) = 4 \<and>
   fst (get_similar_items_recommendation demo 1 4) = Inr [Some 100, Some 999999, Some 100, Some 200] \<and>
   int (length [Some 100, Some 999999, Some 100, Some (200 :: int)]) = 4 \<and>
   fst (get_similar_users_recommendation demo 1 3) = Inr [100, 200, 50] \<and>
   int (length [100, 200, 50 :: int]) = 3"
proof -
  have a: "fst (get_als_recommendations demo 1 4) = Inr [100, 50, 200, 100]"
    by (simp add: get_als_recommendations_def demo_eval)
  have b: "fst (get_bm25_recommendations demo 1 4) = Inr [100, 50, 200, 100]"
    by (simp add: get_bm25_recommendations_def demo_eval)
  have c: "fst (get_tfidf_recommendations demo 1 4) = Inr [100, 50, 200, 100]"
    by (simp add: get_tfidf_recommendations_def demo_eval)
  have d: "fst (get_cosine_recommendations demo 1 4) = Inr [100, 50, 200, 100]"
    by (simp add: get_cosine_recommendations_def demo_eval)
  have e: "fst (get_own_recommendations demo 1 4) = Inr [100, 50, 200, 100]"
    by (simp add: get_own_recommendations_def demo_eval)
  have f: "fst (get_similar_items_recommendation demo 1 4) =
      Inr [Some 100, Some 999999, Some 100, Some 200]"
    by (simp add: get_similar_items_recommendation_def demo_eval)
  have g: "fst (get_similar_users_recommendation demo 1 3) = Inr [100, 200, 50]"
    by (simp add: get_similar_users_recommendation_def demo_eval)
  from returned_list_has_length_N [of demo 1 4] a b c d e f
  have l4: "int (length [100, 50, 200, 100 :: int]) = 4"
    and o4: "int (length [Some 100, Some 999999, Some 100, Some (200 :: int)]) = 4"
    by blast+
  from returned_list_has_length_N [of demo 1 3] g
  have l3: "int (length [100, 200, 50 :: int]) = 3"
    by blast
  from a b c d e f g l4 o4 l3 show ?thesis
    by blast
qed

subsection \<open>C2: when the assertion fires\<close>




subsection \<open>C3: a short result is padded with popular items\<close>

text \<open>
  C3: when the model's \<^verbatim>\<open>recommend\<close> returns fewer than N indices, they are first
  translated to external ids through \<^verbatim>\<open>id_to_itemid\<close>, and the padded list is the
  first N elements of these ids followed by the top-N popularity items. The padded
  list is what \<^verbatim>\<open>_get_recommendations\<close> and the wrapper reading the model from an
  attribute return, with exactly N entries; when the padded list is shorter than N
  the assertion fails instead.
\<close>

theorem short_result_is_padded:
  assumes "update_dict s user = Inr s1"
    and "dict_get (userid_to_id s1) user = Inr uidx"
    and "dict_get (itemid_to_id s1) 999999 = Inr sentinel"
    and "recommend m uidx (user_item_matrix s1) N False [sentinel] False = Inr (ids, scores)"
    and "mapE (dict_get (id_to_itemid s1)) ids = Inr ext"
    and "int (length ids) < N"
    and "getattr s1 attr = Inr m"
  shows "ext = map (\<lambda>i. the (map_of (id_to_itemid s1) i)) ids \<and>
    fst (get_recommendations s user m N) =
      (let padded = take (nat N) (ext @ take (nat N) (overall_top_purchases s1))
       in if length padded = nat N then Inr padded else Inl AssertionError) \<and>
    fst (recommendations_via attr s user N) = fst (get_recommendations s user m N) \<and>
    (\<forall>res. fst (get_recommendations s user m N) = Inr res \<longrightarrow>
       res = take (nat N) (ext @ take (nat N) (overall_top_purchases s1)) \<and> int (length res) = N)"
proof -
  from assms(5) have e: "ext = map (\<lambda>i. the (map_of (id_to_itemid s1) i)) ids"
    by (rule mapE_Inr)
  from assms(5) have l: "length ext = length ids" by (rule mapE_length)
  with assms(6) have "int (length ext) < N" by simp
  then have p: "extend_with_top_popular (overall_top_purchases s1) ext N =
      take (nat N) (ext @ take (nat N) (overall_top_purchases s1))"
    by (rule extend_short)
  from assms(6) have n: "0 \<le> N" by linarith
  have g: "get_recommendations s user m N =
      (assert_len (extend_with_top_popular (overall_top_purchases s1) ext N) N, s1)"
    using assms(1-5) by (rule get_recommendations_eval)
  have r: "fst (get_recommendations s user m N) =
      (let padded = take (nat N) (ext @ take (nat N) (overall_top_purchases s1))
       in if length padded = nat N then Inr padded else Inl AssertionError)"
    unfolding g p using n by (auto simp: assert_len_def Let_def)
  have v: "fst (recommendations_via attr s user N) = fst (get_recommendations s user m N)"
    using assms(1,7) by (simp add: recommendations_via_eq)
  have w: "\<forall>res. fst (get_recommendations s user m N) = Inr res \<longrightarrow>
       res = take (nat N) (ext @ take (nat N) (overall_top_purchases s1)) \<and> int (length res) = N"
    unfolding g p by (auto dest: assert_len_Inr)
  from e r v w show ?thesis by blast
qed

theorem short_result_is_padded_witness:
  "update_dict demo 1 = Inr demo \<and>
   dict_get (userid_to_id demo) 1 = Inr 0 \<and>
   dict_get (itemid_to_id demo) 999999 = Inr 3 \<and>
   recommend demo_model 0 (user_item_matrix demo) 4 False [3] False = Inr ([1, 0, 2], [1, 1, 1]) \<and>
   mapE (dict_get (id_to_itemid demo)) [1, 0, 2] = Inr [100, 50, 200] \<and>
   int (length [1, 0, 2 :: int]) < 4 \<and>
   getattr demo ''model_bm25'' = Inr demo_model \<and>
   fst (get_recommendations demo 1 demo_model 4) = Inr [100, 50, 200, 100] \<and>
   fst (recommendations_via ''model_bm25'' demo 1 4) = Inr [100, 50, 200, 100]"
proof -
  have h1: "update_dict demo 1 = Inr demo" by (simp add: update_dict_def demo_def)
  have h2: "dict_get (userid_to_id demo) 1 = Inr 0" by (simp add: dict_get_def demo_def)
  have h3: "dict_get (itemid_to_id demo) 999999 = Inr 3" by (simp add: dict_get_def demo_def)
  have h4: "recommend demo_model 0 (user_item_matrix demo) 4 False [3] False = Inr ([1, 0, 2], [1, 1, 1])"
    by (simp add: demo_model_def py_take_def)
  have h5: "mapE (dict_get (id_to_itemid demo)) [1, 0, 2] = Inr [100, 50, 200]"
    by (simp add: dict_get_def demo_def)
  have h6: "int (length [1, 0, 2 :: int]) < 4" by simp
  have h7: "getattr demo ''model_bm25'' = Inr demo_model" by (simp add: getattr_def demo_def)
  have p: "overall_top_purchases demo = [100, 200, 50]" by (simp add: demo_def)
  note t = short_result_is_padded [OF h1 h2 h3 h4 h5 h6 h7]
  from t have r: "fst (get_recommendations demo 1 demo_model 4) =
      (let padded = take (nat 4) ([100, 50, 200] @ take (nat 4) (overall_top_purchases demo))
       in if length padded = nat 4 then Inr padded else Inl AssertionError)"
    by (rule conjunct1 [OF conjunct2])
  from t have v: "fst (recommendations_via ''model_bm25'' demo 1 4) =
      fst (get_recommendations demo 1 demo_model 4)"
    by (rule conjunct1 [OF conjunct2 [OF conjunct2]])
  have c: "(let padded = take (nat 4) ([100, 50, 200] @ take (nat 4) (overall_top_purchases demo))
       in if length padded = nat 4 then Inr padded else Inl AssertionError) =
      (Inr [100, 50, 200, 100] :: error + int list)"
    by (simp add: p Let_def)
  from r c have a: "fst (get_recommendations demo 1 demo_model 4) = Inr [100, 50, 200, 100]"
    by (rule trans)
  from v a have b: "fst (recommendations_via ''model_bm25'' demo 1 4) = Inr [100, 50, 200, 100]"
    by (rule trans)
  from h1 h2 h3 h4 h5 h6 h7 a b show ?thesis by blast
qed

subsection \<open>C4: a new user gets the next index\<close>

text \<open>
  C4: for a user id that is not a key of \<^verbatim>\<open>userid_to_id\<close>, \<^verbatim>\<open>_update_dict\<close> assigns
  the index one greater than the current maximum index (the hypothesis that the table
  is not empty says that there is a current maximum), an index no user has; it stores
  the pair in both tables, leaves every other entry, the matrix and all other
  attributes as they were. The five recommendation wrappers and the five score wrappers
  (\<open>recommendations_via\<close>, \<open>scores_via\<close>) leave the object in that same state. For a
  user id that is a key, nothing changes.
\<close>

theorem update_dict_assigns_next_index:
  "(uid \<notin> fst ` set (userid_to_id s) \<and> userid_to_id s \<noteq> [] \<longrightarrow>
      (\<exists>s1 max_id. update_dict s uid = Inr s1 \<and>
         max_id = Max (snd ` set (userid_to_id s)) + 1 \<and>
         max_id \<notin> snd ` set (userid_to_id s) \<and>
         map_of (userid_to_id s1) uid = Some max_id \<and>
         map_of (id_to_userid s1) max_id = Some uid \<and>
         (\<forall>u. u \<noteq> uid \<longrightarrow> map_of (userid_to_id s1) u = map_of (userid_to_id s) u) \<and>
         (\<forall>i. i \<noteq> max_id \<longrightarrow> map_of (id_to_userid s1) i = map_of (id_to_userid s) i) \<and>
         user_item_matrix s1 = user_item_matrix s \<and>
         s1 = s\<lparr>userid_to_id := userid_to_id s1, id_to_userid := id_to_userid s1\<rparr> \<and>
         (\<forall>attr N. snd (recommendations_via attr s uid N) = s1 \<and> snd (scores_via attr s uid N) = s1))) \<and>
   (uid \<in> fst ` set (userid_to_id s) \<longrightarrow>
      update_dict s uid = Inr s \<and>
      (\<forall>attr N. snd (recommendations_via attr s uid N) = s \<and> snd (scores_via attr s uid N) = s))"
proof (intro conjI impI)
  assume a: "uid \<notin> fst ` set (userid_to_id s) \<and> userid_to_id s \<noteq> []"
  define max_id where "max_id = Max (snd ` set (userid_to_id s)) + 1"
  define s1 where "s1 = s\<lparr>userid_to_id := userid_to_id s @ [(uid, max_id)],
           id_to_userid := AList.update max_id uid (id_to_userid s)\<rparr>"
  from a have upd: "update_dict s uid = Inr s1"
    unfolding s1_def max_id_def by (simp add: update_dict_new)
  have fresh: "max_id \<notin> snd ` set (userid_to_id s)"
    unfolding max_id_def by (rule Max_plus_one_fresh) simp
  from a have none: "map_of (userid_to_id s) uid = None"
    by (simp add: map_of_eq_None_iff)
  then have m1: "map_of (userid_to_id s1) uid = Some max_id"
    by (simp add: s1_def map_add_def)
  have m2: "map_of (id_to_userid s1) max_id = Some uid"
    by (simp add: s1_def update_conv')
  from a have m3: "\<forall>u. u \<noteq> uid \<longrightarrow> map_of (userid_to_id s1) u = map_of (userid_to_id s) u"
    by (auto simp: s1_def map_add_def split: option.splits)
  have m4: "\<forall>i. i \<noteq> max_id \<longrightarrow> map_of (id_to_userid s1) i = map_of (id_to_userid s) i"
    by (simp add: s1_def update_conv')
  have m5: "user_item_matrix s1 = user_item_matrix s"
    and m6: "s1 = s\<lparr>userid_to_id := userid_to_id s1, id_to_userid := id_to_userid s1\<rparr>"
    by (simp_all add: s1_def)
  have m7: "\<forall>attr N. snd (recommendations_via attr s uid N) = s1 \<and> snd (scores_via attr s uid N) = s1"
    using upd by (simp add: recommendations_via_state scores_via_state)
  from upd fresh m1 m2 m3 m4 m5 m6 m7 max_id_def
  show "\<exists>s1 max_id. update_dict s uid = Inr s1 \<and>
         max_id = Max (snd ` set (userid_to_id s)) + 1 \<and>
         max_id \<notin> snd ` set (userid_to_id s) \<and>
         map_of (userid_to_id s1) uid = Some max_id \<and>
         map_of (id_to_userid s1) max_id = Some uid \<and>
         (\<forall>u. u \<noteq> uid \<longrightarrow> map_of (userid_to_id s1) u = map_of (userid_to_id s) u) \<and>
         (\<forall>i. i \<noteq> max_id \<longrightarrow> map_of (id_to_userid s1) i = map_of (id_to_userid s) i) \<and>
         user_item_matrix s1 = user_item_matrix s \<and>
         s1 = s\<lparr>userid_to_id := userid_to_id s1, id_to_userid := id_to_userid s1\<rparr> \<and>
         (\<forall>attr N. snd (recommendations_via attr s uid N) = s1 \<and> snd (scores_via attr s uid N) = s1)"
    by blast
next
  assume "uid \<in> fst ` set (userid_to_id s)"
  then show "update_dict s uid = Inr s" by (rule update_dict_known)
next
  assume "uid \<in> fst ` set (userid_to_id s)"
  then have "update_dict s uid = Inr s" by (rule update_dict_known)
  then show "\<forall>attr N. snd (recommendations_via attr s uid N) = s \<and> snd (scores_via attr s uid N) = s"
    by (simp add: recommendations_via_state scores_via_state)
qed


theorem update_dict_assigns_next_index_witness:
  "3 \<notin> fst ` set (userid_to_id demo) \<and> userid_to_id demo \<noteq> [] \<and>
   (\<exists>s1. update_dict demo 3 = Inr s1 \<and>
      userid_to_id s1 = [(1, 0), (2, 1), (3, 2)] \<and>
      id_to_userid s1 = [(0, 1), (1, 2), (2, 3)] \<and>
      map_of (userid_to_id s1) 3 = Some 2 \<and> map_of (id_to_userid s1) 2 = Some 3 \<and>
      user_item_matrix s1 = user_item_matrix demo \<and>
      snd (get_als_recommendations demo 3 5) = s1 \<and> snd (get_bm25_scores demo 3 5) = s1) \<and>
   1 \<in> fst ` set (userid_to_id demo) \<and> update_dict demo 1 = Inr demo \<and>
   snd (get_own_recommendations demo 1 5) = demo"
proof -
  have h: "3 \<notin> fst ` set (userid_to_id demo) \<and> userid_to_id demo \<noteq> []"
    by (simp add: demo_def)
  have k: "1 \<in> fst ` set (userid_to_id demo)"
    by (simp add: demo_def)
  have mx: "Max (snd ` set (userid_to_id demo)) + 1 = 2"
    by (simp add: demo_def)
  from update_dict_assigns_next_index [of 3 demo] h mx
  obtain s1 where s1: "update_dict demo 3 = Inr s1"
      "map_of (userid_to_id s1) 3 = Some 2" "map_of (id_to_userid s1) 2 = Some 3"
      "user_item_matrix s1 = user_item_matrix demo"
      "\<forall>attr N. snd (recommendations_via attr demo 3 N) = s1 \<and> snd (scores_via attr demo 3 N) = s1"
    by auto
  have e: "update_dict demo 3 =
      Inr (demo\<lparr>userid_to_id := [(1, 0), (2, 1), (3, 2)], id_to_userid := [(0, 1), (1, 2), (2, 3)]\<rparr>)"
    by (simp add: update_dict_def demo_def py_max_def bindE_def)
  with s1(1) have t: "userid_to_id s1 = [(1, 0), (2, 1), (3, 2)]" "id_to_userid s1 = [(0, 1), (1, 2), (2, 3)]"
    by auto
  from update_dict_assigns_next_index [of 1 demo] k
  have u: "update_dict demo 1 = Inr demo"
      "\<forall>attr N. snd (recommendations_via attr demo 1 N) = demo \<and> snd (scores_via attr demo 1 N) = demo"
    by auto
  from h k s1 t u show ?thesis
    by (auto simp: get_als_recommendations_def get_bm25_scores_def get_own_recommendations_def)
qed

subsection \<open>C5: the id tables stay mutual inverses\<close>

text \<open>
  C5: after construction the user tables are mutual inverses and so are the item
  tables, whose keys are the columns of the pivoted matrix and the indices
  \<open>0, ..., n - 1\<close>; a call of \<^verbatim>\<open>_update_dict\<close> keeps both pairs of tables mutual
  inverses (a call that raises changes nothing). Mutual inverses means that an external
  id is mapped to an index exactly when that index is mapped back to the id, so each
  index belongs to one id and each id to one index.
\<close>

theorem id_tables_stay_bijective:
  "(init lib data weighting = Inr s \<longrightarrow>
      tables_bijective s \<and>
      map fst (userid_to_id s) = m_index (prepare_matrix data) \<and>
      map fst (itemid_to_id s) = m_columns (prepare_matrix data) \<and>
      map fst (id_to_userid s) = map int [0..<length (m_index (prepare_matrix data))] \<and>
      map fst (id_to_itemid s) = map int [0..<length (m_columns (prepare_matrix data))]) \<and>
   (tables_bijective s \<and> update_dict s uid = Inr s1 \<longrightarrow> tables_bijective s1) \<and>
   (tables_bijective s \<longrightarrow>
      (\<forall>u i. map_of (userid_to_id s) u = Some i \<longleftrightarrow> map_of (id_to_userid s) i = Some u) \<and>
      (\<forall>x i. map_of (itemid_to_id s) x = Some i \<longleftrightarrow> map_of (id_to_itemid s) i = Some x))"
proof (intro conjI impI)
  assume i: "init lib data weighting = Inr s"
  then show "tables_bijective s" by (rule init_tables_bijective)
  show "map fst (userid_to_id s) = m_index (prepare_matrix data)"
    and "map fst (itemid_to_id s) = m_columns (prepare_matrix data)"
    and "map fst (id_to_userid s) = map int [0..<length (m_index (prepare_matrix data))]"
    and "map fst (id_to_itemid s) = map int [0..<length (m_columns (prepare_matrix data))]"
    by (simp_all add: init_tables [OF i])
next
  assume "tables_bijective s \<and> update_dict s uid = Inr s1"
  then show "tables_bijective s1" by (blast intro: tables_bijective_update_dict)
next
  assume "tables_bijective s"
  then show "\<forall>u i. map_of (userid_to_id s) u = Some i \<longleftrightarrow> map_of (id_to_userid s) i = Some u"
    by (simp add: tables_bijective_def mutual_inverses_lookup)
next
  assume "tables_bijective s"
  then show "\<forall>x i. map_of (itemid_to_id s) x = Some i \<longleftrightarrow> map_of (id_to_itemid s) i = Some x"
    by (simp add: tables_bijective_def mutual_inverses_lookup)
qed

theorem id_tables_stay_bijective_witness:
  "init demo_lib demo_data True = Inr demo \<and> tables_bijective demo \<and>
   map fst (itemid_to_id demo) = [50, 100, 200, 999999] \<and>
   map fst (id_to_itemid demo) = [0, 1, 2, 3] \<and>
   update_dict demo 3 =
     Inr (demo\<lparr>userid_to_id := [(1, 0), (2, 1), (3, 2)], id_to_userid := [(0, 1), (1, 2), (2, 3)]\<rparr>) \<and>
   tables_bijective (demo\<lparr>userid_to_id := [(1, 0), (2, 1), (3, 2)], id_to_userid := [(0, 1), (1, 2), (2, 3)]\<rparr>) \<and>
   map_of (userid_to_id demo) 2 = Some 1 \<and> map_of (id_to_userid demo) 1 = Some 2"
proof -
  let ?s1 = "demo\<lparr>userid_to_id := [(1, 0), (2, 1), (3, 2)], id_to_userid := [(0, 1), (1, 2), (2, 3)]\<rparr>"
  note t = id_tables_stay_bijective [of demo_lib demo_data True demo 3 ?s1]
  have e: "update_dict demo 3 = Inr ?s1"
    by (simp add: update_dict_def demo_def py_max_def bindE_def)
  from t init_demo have b: "tables_bijective demo" by blast
  with t e have b1: "tables_bijective ?s1" by blast
  from t b have "map_of (userid_to_id demo) 2 = Some 1 \<longleftrightarrow> map_of (id_to_userid demo) 1 = Some 2"
    by blast
  moreover have "map_of (userid_to_id demo) 2 = Some 1" by (simp add: demo_def)
  ultimately have l: "map_of (userid_to_id demo) 2 = Some 1 \<and> map_of (id_to_userid demo) 1 = Some 2"
    by blast
  have k: "map fst (itemid_to_id demo) = [50, 100, 200, 999999] \<and> map fst (id_to_itemid demo) = [0, 1, 2, 3]"
    by (simp add: demo_def)
  from init_demo b k e b1 l show ?thesis by blast
qed

subsection \<open>C6: the sentinel item 999999\<close>

text \<open>
  C6 says that no recommendation list ever contains 999999. Construction does remove the
  sentinel from \<^verbatim>\<open>overall_top_purchases\<close> and \<^verbatim>\<open>top_purchases\<close> (lemma
  \<open>init_excludes_sentinel\<close>) and \<^verbatim>\<open>_get_recommendations\<close> passes its index as
  \<^verbatim>\<open>filter_items\<close>, but \<^verbatim>\<open>_get_similar_item\<close> calls \<^verbatim>\<open>similar_items\<close> without any
  filter. On the recommender built from the seven transactions the nearest other item
  of item 50 is the sentinel, and \<^verbatim>\<open>get_similar_items_recommendation(1, 2)\<close> returns it.
\<close>

theorem similar_items_list_contains_sentinel:
  "init demo_lib demo_data True = Inr demo \<and>
   999999 \<notin> set (overall_top_purchases demo) \<and>
   999999 \<notin> item_id ` set (top_purchases demo) \<and>
   similar_items demo_model 0 2 = Inr [(3, 1), (0, 1)] \<and>
   get_similar_item demo 50 = Inr (Some 999999) \<and>
   fst (get_similar_items_recommendation demo 1 2) = Inr [Some 100, Some 999999]"
  by (simp add: init_demo get_similar_items_recommendation_def demo_eval)

subsection \<open>C7: the nearest other item\<close>

text \<open>
  C7 says that \<^verbatim>\<open>_get_similar_item\<close> returns an item different from the queried one
  whenever the model's top 2 hold such a neighbour. The loop compares the internal
  index of each row with the external id it was called with, so the row of the queried
  item itself passes the test: for item 100 (index 1) the model answers the indices 1
  and 2, index 2 is item 200, and the method returns item 100.
\<close>

theorem similar_item_returns_the_queried_item:
  "dict_get (itemid_to_id demo) 100 = Inr 1 \<and>
   similar_items demo_model 1 2 = Inr [(1, 1), (2, 1 / 2)] \<and>
   dict_get (id_to_itemid demo) 2 = Inr 200 \<and>
   get_similar_item demo 100 = Inr (Some 100)"
  by (simp add: demo_eval)

subsection \<open>C8: recommendations of similar users\<close>

text \<open>
  C8 says that \<^verbatim>\<open>get_similar_users_recommendation\<close> collects the own-item top-1
  recommendation of each of the N most similar users. The method keeps a similar user
  only if \<^verbatim>\<open>str(index)\<close> is a key of \<^verbatim>\<open>id_to_userid\<close>, whose keys are integers, so it
  keeps none (lemma \<open>similar_user_ids_empty\<close>) and the result is the popularity list
  alone (lemma \<open>similar_users_only_popular\<close>). Here user 2 is similar to user 1 and
  its own recommendation is item 200, but the request returns the most popular item 100.
\<close>

theorem similar_users_are_never_used:
  "dict_get (userid_to_id demo) 1 = Inr 0 \<and>
   similar_users demo_model 0 (1 + 1) = Inr [(0, 1), (1, 1 / 2)] \<and>
   dict_get (id_to_userid demo) 1 = Inr 2 \<and>
   fst (get_own_recommendations demo 2 1) = Inr [200] \<and>
   similar_user_ids demo [(0, 1), (1, 1 / 2)] = [] \<and>
   fst (get_similar_users_recommendation demo 1 1) = Inr [100]"
  by (simp add: get_similar_users_recommendation_def get_own_recommendations_def demo_eval)

subsection \<open>C9: the scores of the factorization model\<close>

text \<open>
  C9 says that \<^verbatim>\<open>get_als_scores\<close> returns N scores for every known user.
  \<^verbatim>\<open>__init__\<close> stores the factorization model as \<^verbatim>\<open>self.model\<close>, the method reads
  \<^verbatim>\<open>self.model_als\<close>: on every constructed recommender the call raises (lemma
  \<open>get_als_scores_raises\<close>), here AttributeError for the known user 1, while the
  sibling \<^verbatim>\<open>get_bm25_scores\<close> returns five scores.
\<close>

theorem get_als_scores_raises_AttributeError:
  "init demo_lib demo_data True = Inr demo \<and>
   fst (get_als_scores demo 1 5) = Inl AttributeError \<and>
   fst (get_bm25_scores demo 1 5) = Inr [1, 1, 1, 1 / 4, 1 / 4]"
  by (simp add: init_demo get_als_scores_def get_bm25_scores_def demo_eval)

subsection \<open>C10: padding does not deduplicate and does not truncate\<close>

text \<open>
  C10: there is a list shorter than N that holds an item once and shares it with the
  top-N popularity list, for which \<^verbatim>\<open>_extend_with_top_popular\<close> returns that item more
  than once: the second copy comes from the padding (recommendations [100], popularity
  list [100, 200] and N = 2 give [100, 100]). And every list of length at least N is
  returned unchanged.
\<close>

theorem padding_keeps_duplicates:
  "(\<exists>(recs :: int list) popular N x.
      int (length recs) < N \<and> count_list recs x = 1 \<and> x \<in> set (py_take N popular) \<and>
      1 < count_list (extend_with_top_popular popular recs N) x) \<and>
   extend_with_top_popular [100, 200] [100 :: int] 2 = [100, 100] \<and>
   (\<forall>(recs :: 'a list) popular N.
      N \<le> int (length recs) \<longrightarrow> extend_with_top_popular popular recs N = recs)"
proof (intro conjI)
  have "int (length [100 :: int]) < 2 \<and> count_list [100 :: int] 100 = 1 \<and>
      100 \<in> set (py_take 2 [100, 200 :: int]) \<and>
      1 < count_list (extend_with_top_popular [100, 200] [100 :: int] 2) 100"
    by (simp add: extend_with_top_popular_def py_take_def)
  then show "\<exists>(recs :: int list) popular N x.
      int (length recs) < N \<and> count_list recs x = 1 \<and> x \<in> set (py_take N popular) \<and>
      1 < count_list (extend_with_top_popular popular recs N) x"
    by blast
next
  show "extend_with_top_popular [100, 200] [100 :: int] 2 = [100, 100]"
    by (simp add: extend_with_top_popular_def py_take_def)
next
  show "\<forall>(recs :: 'a list) popular N.
      N \<le> int (length recs) \<longrightarrow> extend_with_top_popular popular recs N = recs"
    by (simp add: extend_long)
qed

theorem padding_keeps_duplicates_witness:
  "(5 :: int) \<le> int (length [1, 2, 3, 4, 5, 6 :: int]) \<and>
   extend_with_top_popular [100, 200, 0] [1, 2, 3, 4, 5, 6 :: int] 5 = [1, 2, 3, 4, 5, 6]"
proof -
  have h: "(5 :: int) \<le> int (length [1, 2, 3, 4, 5, 6 :: int])" by simp
  from padding_keeps_duplicates have
    "\<forall>(recs :: int list) popular N. N \<le> int (length recs) \<longrightarrow> extend_with_top_popular popular recs N = recs"
    by (rule conjunct2 [OF conjunct2])
  then have "extend_with_top_popular [100, 200, 0] [1, 2, 3, 4, 5, 6 :: int] 5 = [1, 2, 3, 4, 5, 6]"
    using h by blast
  with h show ?thesis by blast
qed

end
